theory Spec2Isabelle
  imports Main
begin

section \<open>Error model (core/errors.py)\<close>

text \<open>
  The error codes are the string constants of \<^verbatim>\<open>core/errors.py\<close>. An exception is either
  an \<^verbatim>\<open>AppException\<close> carrying its HTTP status and its machine-readable code (the message
  text and the detail list play no part in any property below and are left out), or some
  other exception: \<^verbatim>\<open>SQLAlchemyError\<close> stands for every failure of a storage call,
  \<^verbatim>\<open>IntegrityError\<close> for a violated table constraint, \<^verbatim>\<open>MultipleResultsFound\<close> for
  \<^verbatim>\<open>scalar_one_or_none\<close> on several rows, \<^verbatim>\<open>RequestValidationError\<close> for a body the
  request schema refuses (answered 422 by \<^verbatim>\<open>main.py\<close>) and \<^verbatim>\<open>KeyError\<close> for a missing
  dictionary key. A function that may raise returns \<open>exn + 'a\<close>, with \<open>Inl\<close> the
  exception.
\<close>

definition ERROR_MISSING_TOKEN :: string where "ERROR_MISSING_TOKEN = ''MISSING_TOKEN''"
definition ERROR_INVALID_TOKEN :: string where "ERROR_INVALID_TOKEN = ''INVALID_TOKEN''"
definition ERROR_TOKEN_EXPIRED :: string where "ERROR_TOKEN_EXPIRED = ''TOKEN_EXPIRED''"
definition ERROR_EMAIL_EXISTS :: string where "ERROR_EMAIL_EXISTS = ''EMAIL_ALREADY_EXISTS''"
definition ERROR_TASK_NOT_FOUND :: string where "ERROR_TASK_NOT_FOUND = ''TASK_NOT_FOUND''"
definition ERROR_FORBIDDEN :: string where "ERROR_FORBIDDEN = ''FORBIDDEN''"
definition ERROR_INTERNAL_SERVER :: string where "ERROR_INTERNAL_SERVER = ''INTERNAL_SERVER_ERROR''"

datatype exn =
    AppException int string
  | SQLAlchemyError
  | IntegrityError
  | MultipleResultsFound
  | RequestValidationError
  | KeyError


section \<open>Strings\<close>

text \<open>
  A string is a list of characters, one \<open>char\<close> for each code point below 256.
  \<^verbatim>\<open>str.strip()\<close> removes the leading and trailing characters for which
  \<^verbatim>\<open>str.isspace\<close> holds.
\<close>

definition is_space :: "char \<Rightarrow> bool" where
  "is_space c = (c \<in> set [CHR 0x09, CHR 0x0A, CHR 0x0B, CHR 0x0C, CHR 0x0D,
       CHR 0x1C, CHR 0x1D, CHR 0x1E, CHR 0x1F, CHR 0x20, CHR 0x85, CHR 0xA0])"

definition strip :: "string \<Rightarrow> string" where
  "strip s = rev (dropWhile is_space (rev (dropWhile is_space s)))"

section \<open>Token service (core/security.py)\<close>

text \<open>
  Instants (\<^verbatim>\<open>datetime\<close>) are integers counting microseconds, the resolution of
  \<^verbatim>\<open>datetime.utcnow()\<close>; a \<^verbatim>\<open>timedelta\<close> is a number of microseconds.
\<close>

type_synonym datetime = int
type_synonym timedelta = int

definition hours :: "int \<Rightarrow> timedelta" where
  "hours h = h * 3600 * 1000000"

text \<open>
  The signing library (\<^verbatim>\<open>jose.jwt\<close>) is not part of the repository; it is modelled by what
  the code relies on. A token is either a string that is no JWT at all, or a set of claims
  together with the key its HS256 signature was computed with (the signature validates
  under a key exactly when it is that key). The time claims of a token are whole seconds:
  \<^verbatim>\<open>jwt.encode\<close> converts a \<^verbatim>\<open>datetime\<close> claim with \<^verbatim>\<open>timegm(d.utctimetuple())\<close>, which
  drops the microseconds. \<^verbatim>\<open>jwt.decode\<close> checks structure and signature first
  (\<^verbatim>\<open>JWTError\<close>), then compares \<^verbatim>\<open>exp\<close> with the clock in whole seconds
  (\<^verbatim>\<open>ExpiredSignatureError\<close> when \<^verbatim>\<open>exp < now\<close>), and returns the claims.
\<close>

record claims =
  sub :: "string option"
  exp :: "int option"
  iat :: "int option"

datatype token = Malformed string | JWS claims string

datatype jose_error = ExpiredSignatureError | JWTError

definition timegm :: "datetime \<Rightarrow> int" where
  "timegm d = d div 1000000"

definition jwt_encode :: "string \<Rightarrow> datetime \<Rightarrow> datetime \<Rightarrow> string \<Rightarrow> token" where
  "jwt_encode subject expire issued key =
     JWS \<lparr>sub = Some subject, exp = Some (timegm expire), iat = Some (timegm issued)\<rparr> key"

fun jwt_decode :: "token \<Rightarrow> string \<Rightarrow> datetime \<Rightarrow> jose_error + claims" where
  "jwt_decode (Malformed s) key now = Inl JWTError"
| "jwt_decode (JWS c k) key now =
     (if k \<noteq> key then Inl JWTError
      else case exp c of
             None \<Rightarrow> Inr c
           | Some e \<Rightarrow> if e < timegm now then Inl ExpiredSignatureError else Inr c)"

text \<open>
  \<^verbatim>\<open>create_access_token\<close> reads the clock twice (\<open>now1\<close> for the expiry, \<open>now2\<close> for
  \<^verbatim>\<open>iat\<close>); \<open>secret\<close> is \<^verbatim>\<open>settings.BETTER_AUTH_SECRET\<close>.
\<close>

definition create_access_token ::
  "string \<Rightarrow> string \<Rightarrow> timedelta option \<Rightarrow> datetime \<Rightarrow> datetime \<Rightarrow> token" where
  "create_access_token secret uid expires_delta now1 now2 =
     (let delta = (case expires_delta of None \<Rightarrow> hours 24 | Some d \<Rightarrow> d);
          expire = now1 + delta
      in jwt_encode uid expire now2 secret)"

text \<open>\<^verbatim>\<open>verify_jwt\<close>: \<^verbatim>\<open>not user_id\<close> holds for an absent and for an empty subject. The
  \<^verbatim>\<open>AppException\<close> raised inside the \<^verbatim>\<open>try\<close> is none of the two exceptions caught.\<close>

definition verify_jwt :: "string \<Rightarrow> datetime \<Rightarrow> token \<Rightarrow> exn + claims" where
  "verify_jwt secret now tok =
     (case jwt_decode tok secret now of
        Inr payload \<Rightarrow>
          (case sub payload of
             None \<Rightarrow> Inl (AppException 401 ERROR_INVALID_TOKEN)
           | Some uid \<Rightarrow>
               if uid = [] then Inl (AppException 401 ERROR_INVALID_TOKEN) else Inr payload)
      | Inl ExpiredSignatureError \<Rightarrow> Inl (AppException 401 ERROR_TOKEN_EXPIRED)
      | Inl JWTError \<Rightarrow> Inl (AppException 401 ERROR_INVALID_TOKEN))"

section \<open>Authentication guard (api/dependencies.py)\<close>

text \<open>\<open>credentials\<close> is \<open>None\<close> when the request carries no bearer credential.\<close>

definition get_current_user :: "string \<Rightarrow> datetime \<Rightarrow> token option \<Rightarrow> exn + string" where
  "get_current_user secret now credentials =
     (case credentials of
        None \<Rightarrow> Inl (AppException 401 ERROR_MISSING_TOKEN)
      | Some tok \<Rightarrow>
          (case verify_jwt secret now tok of
             Inl e \<Rightarrow> Inl e
           | Inr payload \<Rightarrow>
               (case sub payload of None \<Rightarrow> Inl KeyError | Some uid \<Rightarrow> Inr uid)))"






section \<open>Users (models/user.py) and signup (api/routes/auth.py)\<close>

record User =
  id' :: string
  email :: string
  password_hash :: string
  name :: "string option"
  email_verified :: bool
  created_at :: datetime

record SignupRequest =
  sr_email :: string
  sr_password :: string
  sr_name :: "string option"

record UserResponse =
  ur_id :: string
  ur_email :: string
  ur_name :: "string option"
  ur_email_verified :: bool
  ur_created_at :: datetime

record AuthResponse =
  access_token :: token
  token_type :: string
  user :: UserResponse

text \<open>
  Table \<^verbatim>\<open>users\<close> is the list of its rows. \<^verbatim>\<open>id\<close> is its primary key and \<^verbatim>\<open>email\<close> is
  declared \<^verbatim>\<open>unique=True\<close>: an insert that repeats either raises \<^verbatim>\<open>IntegrityError\<close>.
\<close>

fun scalar_one_or_none :: "'a list \<Rightarrow> exn + 'a option" where
  "scalar_one_or_none [] = Inr None"
| "scalar_one_or_none [x] = Inr (Some x)"
| "scalar_one_or_none (x # y # ys) = Inl MultipleResultsFound"

definition select_user_by_email :: "User list \<Rightarrow> string \<Rightarrow> exn + User option" where
  "select_user_by_email users e = scalar_one_or_none (filter (\<lambda>u. email u = e) users)"

definition insert_user :: "User list \<Rightarrow> User \<Rightarrow> exn + User list" where
  "insert_user users u =
     (if list_ex (\<lambda>v. id' v = id' u \<or> email v = email u) users then Inl IntegrityError
      else Inr (users @ [u]))"

text \<open>
  What \<^verbatim>\<open>signup\<close> takes from its environment: the secret, the password hashing
  capability (as it answers in this request: the hash is salted), the identifier
  \<^verbatim>\<open>uuid4\<close> draws for the new row, and the three clock reads (the row's
  \<^verbatim>\<open>created_at\<close>, and the two of \<^verbatim>\<open>create_access_token\<close>).
\<close>

record signup_env =
  env_secret :: string
  hash_password :: "string \<Rightarrow> string"
  new_id :: string
  now_created :: datetime
  now_exp :: datetime
  now_iat :: datetime

text \<open>
  \<^verbatim>\<open>signup\<close> has two suspension points where it talks to the storage: the \<^verbatim>\<open>SELECT\<close> by
  email (\<open>signup_check\<close>: does the handler go on?) and the \<^verbatim>\<open>commit\<close> of the new row
  (\<open>signup_create\<close>, which then builds the response around a fresh token). The handler
  has no \<^verbatim>\<open>try\<close>: an exception of either leaves it as it is.
\<close>

definition signup_check :: "SignupRequest \<Rightarrow> User list \<Rightarrow> exn + unit" where
  "signup_check request users =
     (case select_user_by_email users (sr_email request) of
        Inl e \<Rightarrow> Inl e
      | Inr (Some existing_user) \<Rightarrow> Inl (AppException 400 ERROR_EMAIL_EXISTS)
      | Inr None \<Rightarrow> Inr ())"

definition new_user :: "signup_env \<Rightarrow> SignupRequest \<Rightarrow> User" where
  "new_user env request =
     \<lparr>id' = new_id env, email = sr_email request,
      password_hash = hash_password env (sr_password request),
      name = sr_name request, email_verified = False,
      created_at = now_created env\<rparr>"

definition auth_response :: "signup_env \<Rightarrow> User \<Rightarrow> AuthResponse" where
  "auth_response env u =
     \<lparr>access_token = create_access_token (env_secret env) (id' u) None (now_exp env) (now_iat env),
      token_type = ''bearer'',
      user = \<lparr>ur_id = id' u, ur_email = email u, ur_name = name u,
               ur_email_verified = email_verified u, ur_created_at = created_at u\<rparr>\<rparr>"

definition signup_create ::
  "signup_env \<Rightarrow> SignupRequest \<Rightarrow> User list \<Rightarrow> (exn + AuthResponse) \<times> User list" where
  "signup_create env request users =
     (case insert_user users (new_user env request) of
        Inl e \<Rightarrow> (Inl e, users)
      | Inr users' \<Rightarrow> (Inr (auth_response env (new_user env request)), users'))"

definition signup ::
  "signup_env \<Rightarrow> SignupRequest \<Rightarrow> User list \<Rightarrow> (exn + AuthResponse) \<times> User list" where
  "signup env request users =
     (case signup_check request users of
        Inl e \<Rightarrow> (Inl e, users)
      | Inr _ \<Rightarrow> signup_create env request users)"

text \<open>
  Two signups in flight at once: each is at its start, past its check, or finished with
  its outcome; a schedule says which of the two (\<open>True\<close>: the first) takes its next step
  on the table. A finished request takes no further step.
\<close>

datatype progress = Start | Checked | Finished "exn + AuthResponse"

fun signup_step ::
  "signup_env \<Rightarrow> SignupRequest \<Rightarrow> progress \<times> User list \<Rightarrow> progress \<times> User list" where
  "signup_step env request (Start, users) =
     (case signup_check request users of
        Inl e \<Rightarrow> (Finished (Inl e), users)
      | Inr _ \<Rightarrow> (Checked, users))"
| "signup_step env request (Checked, users) =
     (case signup_create env request users of (r, users') \<Rightarrow> (Finished r, users'))"
| "signup_step env request (Finished r, users) = (Finished r, users)"


text \<open>The schedules in which each of the two requests takes its two steps.\<close>

definition interleavings :: "bool list list" where
  "interleavings =
     [[True, True, False, False], [True, False, True, False], [True, False, False, True],
      [False, True, True, False], [False, True, False, True], [False, False, True, True]]"



section \<open>Request schemas (schemas/task.py)\<close>

text \<open>
  A JSON body gives each key a string or leaves it out (\<open>None\<close>, as for \<^verbatim>\<open>null\<close>). The
  schema checks the declared lengths on the submitted string first, then runs the field's
  validator. A body of \<^verbatim>\<open>PUT\<close> may carry keys the schema does not declare, such as
  \<^verbatim>\<open>user_id\<close>; the schema drops them.
\<close>

record create_body =
  cb_title :: "string option"
  cb_description :: "string option"

record update_body =
  ub_title :: "string option"
  ub_description :: "string option"
  ub_user_id :: "string option"

record TaskCreate =
  tc_title :: string
  tc_description :: "string option"

record TaskUpdate =
  tu_title :: "string option"
  tu_description :: "string option"

text \<open>\<^verbatim>\<open>TaskCreate.title_not_empty\<close>\<close>

definition title_not_empty :: "string \<Rightarrow> exn + string" where
  "title_not_empty v = (if strip v = [] then Inl RequestValidationError else Inr (strip v))"

text \<open>\<^verbatim>\<open>description_strip\<close> of both schemas: \<^verbatim>\<open>v.strip() if v else None\<close>, where \<^verbatim>\<open>v\<close>
  is false when it is \<^verbatim>\<open>None\<close> or the empty string.\<close>

definition description_strip :: "string option \<Rightarrow> string option" where
  "description_strip v =
     (case v of None \<Rightarrow> None | Some s \<Rightarrow> if s \<noteq> [] then Some (strip s) else None)"

text \<open>\<^verbatim>\<open>TaskUpdate.title_not_empty\<close>\<close>

definition title_not_empty_opt :: "string option \<Rightarrow> exn + string option" where
  "title_not_empty_opt v =
     (case v of
        None \<Rightarrow> Inr None
      | Some s \<Rightarrow>
          if strip s = [] then Inl RequestValidationError
          else Inr (if s \<noteq> [] then Some (strip s) else None))"

definition check_description :: "string option \<Rightarrow> exn + string option" where
  "check_description v =
     (case v of
        None \<Rightarrow> Inr None
      | Some s \<Rightarrow>
          if 2000 < length s then Inl RequestValidationError
          else Inr (description_strip (Some s)))"

definition TaskCreate_schema :: "create_body \<Rightarrow> exn + TaskCreate" where
  "TaskCreate_schema body =
     (case cb_title body of
        None \<Rightarrow> Inl RequestValidationError
      | Some v \<Rightarrow>
          if length v < 1 \<or> 200 < length v then Inl RequestValidationError
          else (case title_not_empty v of
                  Inl e \<Rightarrow> Inl e
                | Inr t \<Rightarrow>
                    (case check_description (cb_description body) of
                       Inl e \<Rightarrow> Inl e
                     | Inr d \<Rightarrow> Inr \<lparr>tc_title = t, tc_description = d\<rparr>)))"

definition TaskUpdate_schema :: "update_body \<Rightarrow> exn + TaskUpdate" where
  "TaskUpdate_schema body =
     (case (case ub_title body of
              None \<Rightarrow> Inr None
            | Some v \<Rightarrow>
                if length v < 1 \<or> 200 < length v then Inl RequestValidationError
                else title_not_empty_opt (Some v)) of
        Inl e \<Rightarrow> Inl e
      | Inr t \<Rightarrow>
          (case check_description (ub_description body) of
             Inl e \<Rightarrow> Inl e
           | Inr d \<Rightarrow> Inr \<lparr>tu_title = t, tu_description = d\<rparr>))"

section \<open>Tasks (models/task.py) and the database session\<close>

text \<open>\<^verbatim>\<open>Task.id\<close> is \<^verbatim>\<open>Optional[int]\<close>: \<open>None\<close> until the storage assigns the key.\<close>

record Task =
  id' :: "int option"
  user_id :: string
  title :: string
  description :: "string option"
  completed :: bool
  created_at :: datetime
  updated_at :: datetime

text \<open>
  The \<^verbatim>\<open>AsyncSession\<close> a handler receives, together with the table it talks to:
  \<^item> \<open>tasks\<close>: the committed rows of table \<^verbatim>\<open>tasks\<close>, by primary key;
  \<^item> \<open>next_id\<close>: the sequence the storage assigns keys from;
  \<^item> \<open>pending\<close>: the changes staged in the session's open transaction (an added object,
    a modified attached object, an object marked for deletion), flushed by \<^verbatim>\<open>commit\<close>;
  \<^item> \<open>locked\<close>: the rows the open transaction holds \<^verbatim>\<open>FOR UPDATE\<close>;
  \<^item> \<open>trace\<close>: the calls the session has received, in order.
  Every awaited storage call may raise; which ones do is given by a fault plan
  \<open>fails :: db_op \<Rightarrow> bool\<close> (each handler makes each kind of call at most once).
\<close>

datatype change = Insert Task | Update int Task | Delete int

datatype statement =
    SelectTask int bool
  | DeleteObj int
  | Commit
  | Refresh int
  | Rollback
  | Close

datatype db_op = OpExecute | OpDelete | OpCommit | OpRefresh

record AsyncSession =
  tasks :: "int \<rightharpoonup> Task"
  next_id :: int
  pending :: "change list"
  locked :: "int list"
  trace :: "statement list"

definition no_faults :: "db_op \<Rightarrow> bool" where
  "no_faults = (\<lambda>_. False)"

definition issue :: "statement \<Rightarrow> AsyncSession \<Rightarrow> AsyncSession" where
  "issue st db = db\<lparr>trace := trace db @ [st]\<rparr>"

text \<open>\<^verbatim>\<open>session.execute(select(Task).where(Task.id == task_id)[.with_for_update()])\<close>
  followed by \<^verbatim>\<open>scalar_one_or_none()\<close>: the row with that key, locked when asked for.\<close>

definition session_execute ::
  "(db_op \<Rightarrow> bool) \<Rightarrow> int \<Rightarrow> bool \<Rightarrow> AsyncSession \<Rightarrow> (exn + Task option) \<times> AsyncSession" where
  "session_execute fails task_id for_update db =
     (let db1 = issue (SelectTask task_id for_update) db in
      if fails OpExecute then (Inl SQLAlchemyError, db1)
      else (Inr (tasks db1 task_id),
            if for_update \<and> tasks db1 task_id \<noteq> None
            then db1\<lparr>locked := task_id # locked db1\<rparr> else db1))"

fun apply_change :: "AsyncSession \<Rightarrow> change \<Rightarrow> AsyncSession" where
  "apply_change db (Insert t) =
     db\<lparr>tasks := (tasks db)(next_id db \<mapsto> t\<lparr>id' := Some (next_id db)\<rparr>),
        next_id := next_id db + 1\<rparr>"
| "apply_change db (Update k t) = db\<lparr>tasks := (tasks db)(k \<mapsto> t)\<rparr>"
| "apply_change db (Delete k) = db\<lparr>tasks := (tasks db)(k := None)\<rparr>"

definition session_commit ::
  "(db_op \<Rightarrow> bool) \<Rightarrow> AsyncSession \<Rightarrow> (exn + unit) \<times> AsyncSession" where
  "session_commit fails db =
     (let db1 = issue Commit db in
      if fails OpCommit then (Inl SQLAlchemyError, db1)
      else (Inr (), (foldl apply_change db1 (pending db1))\<lparr>pending := [], locked := []\<rparr>))"

definition session_rollback :: "AsyncSession \<Rightarrow> AsyncSession" where
  "session_rollback db = (issue Rollback db)\<lparr>pending := [], locked := []\<rparr>"

definition session_close :: "AsyncSession \<Rightarrow> AsyncSession" where
  "session_close db = (issue Close db)\<lparr>pending := [], locked := []\<rparr>"

text \<open>\<^verbatim>\<open>session.refresh(obj)\<close> reloads the row of the object; it raises when the row is gone.\<close>

definition session_refresh ::
  "(db_op \<Rightarrow> bool) \<Rightarrow> int \<Rightarrow> AsyncSession \<Rightarrow> (exn + Task) \<times> AsyncSession" where
  "session_refresh fails k db =
     (let db1 = issue (Refresh k) db in
      if fails OpRefresh then (Inl SQLAlchemyError, db1)
      else (case tasks db1 k of
              None \<Rightarrow> (Inl SQLAlchemyError, db1)
            | Some t \<Rightarrow> (Inr t, db1)))"

definition session_delete ::
  "(db_op \<Rightarrow> bool) \<Rightarrow> int \<Rightarrow> AsyncSession \<Rightarrow> (exn + unit) \<times> AsyncSession" where
  "session_delete fails k db =
     (let db1 = issue (DeleteObj k) db in
      if fails OpDelete then (Inl SQLAlchemyError, db1)
      else (Inr (), db1\<lparr>pending := pending db1 @ [Delete k]\<rparr>))"

text \<open>\<^verbatim>\<open>session.add(task)\<close> stages the new object; assigning an attribute of an attached
  object stages the update of its row.\<close>

definition session_add :: "Task \<Rightarrow> AsyncSession \<Rightarrow> AsyncSession" where
  "session_add t db = db\<lparr>pending := pending db @ [Insert t]\<rparr>"

definition session_dirty :: "int \<Rightarrow> Task \<Rightarrow> AsyncSession \<Rightarrow> AsyncSession" where
  "session_dirty k t db = db\<lparr>pending := pending db @ [Update k t]\<rparr>"

text \<open>\<^verbatim>\<open>get_db\<close> (core/database.py): the handler runs on the session, which is closed in the
  \<^verbatim>\<open>finally\<close> clause whatever the handler did.\<close>

definition get_db ::
  "(AsyncSession \<Rightarrow> (exn + 'a) \<times> AsyncSession) \<Rightarrow> AsyncSession \<Rightarrow> (exn + 'a) \<times> AsyncSession" where
  "get_db handler db = (case handler db of (r, db') \<Rightarrow> (r, session_close db'))"

section \<open>Ownership authorizer (core/authorization.py)\<close>

text \<open>The fetch, then the two checks in the order of the source: is there a row, and is it
  the caller's. (The warning logged before the 403 touches neither the result nor the
  session and is left out.)\<close>

definition get_user_task_or_404 ::
  "(db_op \<Rightarrow> bool) \<Rightarrow> int \<Rightarrow> string \<Rightarrow> AsyncSession \<Rightarrow> bool \<Rightarrow> (exn + Task) \<times> AsyncSession" where
  "get_user_task_or_404 fails task_id uid session for_update =
     (case session_execute fails task_id for_update session of
        (Inl e, s1) \<Rightarrow> (Inl e, s1)
      | (Inr None, s1) \<Rightarrow> (Inl (AppException 404 ERROR_TASK_NOT_FOUND), s1)
      | (Inr (Some task), s1) \<Rightarrow>
          if user_id task \<noteq> uid then (Inl (AppException 403 ERROR_FORBIDDEN), s1)
          else (Inr task, s1))"

section \<open>Task handlers (api/routes/tasks.py)\<close>

text \<open>
  The two \<^verbatim>\<open>except\<close> clauses every handler ends with: an \<^verbatim>\<open>AppException\<close> is re-raised as
  it is; any other exception rolls the session back and becomes a 500. \<open>rb\<close> tells
  whether the handler's second clause calls \<^verbatim>\<open>db.rollback()\<close> (all do but \<^verbatim>\<open>get_task\<close>).
\<close>

fun except_clauses :: "bool \<Rightarrow> (exn + 'a) \<times> AsyncSession \<Rightarrow> (exn + 'a) \<times> AsyncSession" where
  "except_clauses rb (Inr v, db) = (Inr v, db)"
| "except_clauses rb (Inl (AppException c e), db) = (Inl (AppException c e), db)"
| "except_clauses rb (Inl other, db) =
     (Inl (AppException 500 ERROR_INTERNAL_SERVER), if rb then session_rollback db else db)"

text \<open>Sequencing inside a \<^verbatim>\<open>try\<close> body: the first exception ends it.\<close>

definition and_then ::
  "(exn + 'a) \<times> AsyncSession \<Rightarrow> ('a \<Rightarrow> AsyncSession \<Rightarrow> (exn + 'b) \<times> AsyncSession)
     \<Rightarrow> (exn + 'b) \<times> AsyncSession" where
  "and_then m f = (case m of (Inl e, db) \<Rightarrow> (Inl e, db) | (Inr v, db) \<Rightarrow> f v db)"


text \<open>\<^verbatim>\<open>create_task\<close> reads the clock twice, once for each timestamp: \<open>now1\<close> and \<open>now2\<close>.
  The key the storage assigns at the flush is the next of the sequence.\<close>

definition create_task ::
  "(db_op \<Rightarrow> bool) \<Rightarrow> TaskCreate \<Rightarrow> string \<Rightarrow> datetime \<Rightarrow> datetime \<Rightarrow> AsyncSession
     \<Rightarrow> (exn + Task) \<times> AsyncSession" where
  "create_task fails task_data current_user now1 now2 db =
     except_clauses True
       (let task = \<lparr>id' = None, user_id = current_user, title = tc_title task_data,
                    description = tc_description task_data, completed = False,
                    created_at = now1, updated_at = now2\<rparr>;
            db1 = session_add task db;
            k = next_id db1
        in and_then (session_commit fails db1) (\<lambda>_. session_refresh fails k))"

definition get_task ::
  "(db_op \<Rightarrow> bool) \<Rightarrow> int \<Rightarrow> string \<Rightarrow> AsyncSession \<Rightarrow> (exn + Task) \<times> AsyncSession" where
  "get_task fails task_id current_user db =
     except_clauses False (get_user_task_or_404 fails task_id current_user db False)"

definition update_task ::
  "(db_op \<Rightarrow> bool) \<Rightarrow> int \<Rightarrow> TaskUpdate \<Rightarrow> string \<Rightarrow> datetime \<Rightarrow> AsyncSession
     \<Rightarrow> (exn + Task) \<times> AsyncSession" where
  "update_task fails task_id task_data current_user now db =
     except_clauses True
       (and_then (get_user_task_or_404 fails task_id current_user db False) (\<lambda>task db1.
          let task1 = (case tu_title task_data of
                         Some t \<Rightarrow> task\<lparr>title := t\<rparr> | None \<Rightarrow> task);
              task2 = (case tu_description task_data of
                         Some d \<Rightarrow> task1\<lparr>description := Some d\<rparr> | None \<Rightarrow> task1);
              task3 = task2\<lparr>updated_at := now\<rparr>;
              db2 = session_dirty task_id task3 db1
          in and_then (session_commit fails db2) (\<lambda>_. session_refresh fails task_id)))"

definition delete_task ::
  "(db_op \<Rightarrow> bool) \<Rightarrow> int \<Rightarrow> string \<Rightarrow> AsyncSession \<Rightarrow> (exn + unit) \<times> AsyncSession" where
  "delete_task fails task_id current_user db =
     except_clauses True
       (and_then (get_user_task_or_404 fails task_id current_user db False) (\<lambda>task db1.
          and_then (session_delete fails task_id db1) (\<lambda>_. session_commit fails)))"

definition toggle_task_completion ::
  "(db_op \<Rightarrow> bool) \<Rightarrow> int \<Rightarrow> string \<Rightarrow> datetime \<Rightarrow> AsyncSession
     \<Rightarrow> (exn + Task) \<times> AsyncSession" where
  "toggle_task_completion fails task_id current_user now db =
     except_clauses True
       (and_then (get_user_task_or_404 fails task_id current_user db True) (\<lambda>task db1.
          let task1 = task\<lparr>completed := \<not> completed task\<rparr>;
              task2 = task1\<lparr>updated_at := now\<rparr>;
              db2 = session_dirty task_id task2 db1
          in and_then (session_commit fails db2) (\<lambda>_. session_refresh fails task_id)))"


text \<open>The routes \<^verbatim>\<open>POST /tasks\<close> and \<^verbatim>\<open>PUT /tasks/{id}\<close>: the body passes the schema before
  the handler runs; a refused body never reaches it.\<close>

definition POST_tasks ::
  "(db_op \<Rightarrow> bool) \<Rightarrow> create_body \<Rightarrow> string \<Rightarrow> datetime \<Rightarrow> datetime \<Rightarrow> AsyncSession
     \<Rightarrow> (exn + Task) \<times> AsyncSession" where
  "POST_tasks fails body current_user now1 now2 db =
     (case TaskCreate_schema body of
        Inl e \<Rightarrow> (Inl e, db)
      | Inr task_data \<Rightarrow> create_task fails task_data current_user now1 now2 db)"

definition PUT_task ::
  "(db_op \<Rightarrow> bool) \<Rightarrow> int \<Rightarrow> update_body \<Rightarrow> string \<Rightarrow> datetime \<Rightarrow> AsyncSession
     \<Rightarrow> (exn + Task) \<times> AsyncSession" where
  "PUT_task fails task_id body current_user now db =
     (case TaskUpdate_schema body of
        Inl e \<Rightarrow> (Inl e, db)
      | Inr task_data \<Rightarrow> update_task fails task_id task_data current_user now db)"

section \<open>Notions used to state the properties\<close>

text \<open>The session \<^verbatim>\<open>get_db\<close> hands to a handler is new: nothing staged, nothing locked,
  no call received.\<close>

definition new_session :: "AsyncSession \<Rightarrow> bool" where
  "new_session db = (pending db = [] \<and> locked db = [] \<and> trace db = [])"

fun is_select :: "statement \<Rightarrow> bool" where
  "is_select (SelectTask k l) = True"
| "is_select st = False"

fun is_refresh :: "statement \<Rightarrow> bool" where
  "is_refresh (Refresh k) = True"
| "is_refresh st = False"

text \<open>The fetches a handler made, in order.\<close>

definition fetches :: "(exn + 'a) \<times> AsyncSession \<Rightarrow> statement list" where
  "fetches res = filter is_select (trace (snd res))"

definition refresh_fails :: "db_op \<Rightarrow> bool" where
  "refresh_fails op = (op = OpRefresh)"

definition commit_fails :: "db_op \<Rightarrow> bool" where
  "commit_fails op = (op = OpCommit)"

text \<open>The two failures of the ownership authorizer.\<close>

definition is_authz_error :: "exn \<Rightarrow> bool" where
  "is_authz_error e =
     (e = AppException 403 ERROR_FORBIDDEN \<or> e = AppException 404 ERROR_TASK_NOT_FOUND)"

text \<open>
  What an exception of a handler leaves behind, for a handler run on session \<open>db\<close>:
  \<^item> unless a \<^verbatim>\<open>refresh\<close> was reached (the commit before it had then succeeded), the
    stored rows and the key sequence are what they were;
  \<^item> on a failure of the authorizer the handler has not rolled back (and nothing is
    staged); on any other exception it answers 500 and its last call was the rollback,
    which leaves nothing staged and nothing locked;
  \<^item> once \<^verbatim>\<open>get_db\<close> has closed the session, nothing is staged or locked, and closing
    changed no stored row.
\<close>

definition atomic_on_error ::
  "(AsyncSession \<Rightarrow> (exn + 'a) \<times> AsyncSession) \<Rightarrow> AsyncSession \<Rightarrow> bool" where
  "atomic_on_error handler db =
     (case handler db of
        (Inr v, db') \<Rightarrow> True
      | (Inl e, db') \<Rightarrow>
          (\<not> list_ex is_refresh (trace db') \<longrightarrow>
             tasks db' = tasks db \<and> next_id db' = next_id db) \<and>
          (if is_authz_error e
           then Rollback \<notin> set (trace db') \<and> pending db' = []
           else e = AppException 500 ERROR_INTERNAL_SERVER \<and> last (trace db') = Rollback \<and>
                pending db' = [] \<and> locked db' = []) \<and>
          (case get_db handler db of
             (r, db'') \<Rightarrow> pending db'' = [] \<and> locked db'' = [] \<and> tasks db'' = tasks db'))"

text \<open>Example data: one task of user alice, stored under key 1; request bodies.\<close>

definition alice_task :: Task where
  "alice_task = \<lparr>id' = Some 1, user_id = ''alice'', title = ''buy milk'',
                  description = Some ''two litres'', completed = False,
                  created_at = 100, updated_at = 100\<rparr>"

definition example_db :: AsyncSession where
  "example_db = \<lparr>tasks = [1 \<mapsto> alice_task], next_id = 2, pending = [], locked = [],
                  trace = []\<rparr>"

definition empty_db :: AsyncSession where
  "empty_db = \<lparr>tasks = Map.empty, next_id = 1, pending = [], locked = [], trace = []\<rparr>"

definition retitle_body :: update_body where
  "retitle_body = \<lparr>ub_title = Some ''  buy bread '', ub_description = None,
                    ub_user_id = Some ''mallory''\<rparr>"

definition blank_body :: update_body where
  "blank_body = \<lparr>ub_title = None, ub_description = Some ''   '', ub_user_id = None\<rparr>"

definition empty_description_body :: update_body where
  "empty_description_body = \<lparr>ub_title = None, ub_description = Some [], ub_user_id = None\<rparr>"

definition call_body :: create_body where
  "call_body = \<lparr>cb_title = Some '' call mum'', cb_description = Some ''weekly''\<rparr>"

definition call_task :: Task where
  "call_task = \<lparr>id' = Some 1, user_id = ''alice'', title = ''call mum'',
                 description = Some ''weekly'', completed = False,
                 created_at = 100, updated_at = 101\<rparr>"








section \<open>Basic facts about the session and the handlers\<close>

lemma issue_simps [simp]:
  "tasks (issue st db) = tasks db"
  "pending (issue st db) = pending db"
  "locked (issue st db) = locked db"
  "next_id (issue st db) = next_id db"
  "trace (issue st db) = trace db @ [st]"
  by (simp_all add: issue_def)

lemma apply_change_session [simp]:
  "trace (apply_change db c) = trace db"
  "pending (apply_change db c) = pending db"
  "locked (apply_change db c) = locked db"
  by (cases c; simp)+

lemma foldl_apply_change_session [simp]:
  "trace (foldl apply_change db cs) = trace db"
  "pending (foldl apply_change db cs) = pending db"
  "locked (foldl apply_change db cs) = locked db"
  by (induction cs arbitrary: db) simp_all

lemmas handler_defs =
  get_task_def update_task_def delete_task_def toggle_task_completion_def create_task_def
  get_user_task_or_404_def session_execute_def session_commit_def session_refresh_def
  session_delete_def session_rollback_def session_dirty_def session_add_def and_then_def

lemma authorizer_absent:
  "\<not> fails OpExecute \<Longrightarrow> tasks db T = None \<Longrightarrow>
   get_user_task_or_404 fails T B db fu =
     (Inl (AppException 404 ERROR_TASK_NOT_FOUND), issue (SelectTask T fu) db)"
  by (simp add: get_user_task_or_404_def session_execute_def Let_def)

lemma authorizer_present:
  "\<not> fails OpExecute \<Longrightarrow> tasks db T = Some t \<Longrightarrow>
   get_user_task_or_404 fails T B db fu =
     (if user_id t \<noteq> B then Inl (AppException 403 ERROR_FORBIDDEN) else Inr t,
      if fu then (issue (SelectTask T fu) db)\<lparr>locked := T # locked db\<rparr>
      else issue (SelectTask T fu) db)"
  by (simp add: get_user_task_or_404_def session_execute_def Let_def)

lemma authorizer_success:
  "fst (get_user_task_or_404 fails T B db fu) = Inr t \<Longrightarrow>
   \<not> fails OpExecute \<and> tasks db T = Some t \<and> user_id t = B"
  by (auto simp add: get_user_task_or_404_def session_execute_def Let_def
      split: if_splits option.splits)

lemma except_clauses_Inr:
  "fst (except_clauses rb m) = Inr v \<longleftrightarrow> fst m = Inr v"
  by (cases "(rb, m)" rule: except_clauses.cases) auto

lemma and_then_Inr:
  "fst (and_then m f) = Inr v \<Longrightarrow> \<exists>w. fst m = Inr w"
  by (auto simp: and_then_def split: prod.splits sum.splits)

lemma commit_ok:
  "\<not> fails OpCommit \<Longrightarrow> session_commit fails db =
     (Inr (), (foldl apply_change (issue Commit db) (pending db))\<lparr>pending := [], locked := []\<rparr>)"
  by (simp add: session_commit_def Let_def)

lemma handlers_absent:
  assumes "\<not> fails OpExecute" "tasks db T = None"
  shows "fst (get_task fails T B db) = Inl (AppException 404 ERROR_TASK_NOT_FOUND)"
    and "fst (update_task fails T d B now db) = Inl (AppException 404 ERROR_TASK_NOT_FOUND)"
    and "fst (delete_task fails T B db) = Inl (AppException 404 ERROR_TASK_NOT_FOUND)"
    and "fst (toggle_task_completion fails T B now db) = Inl (AppException 404 ERROR_TASK_NOT_FOUND)"
  using assms
  by (simp_all add: get_task_def update_task_def delete_task_def toggle_task_completion_def
      authorizer_absent and_then_def)

lemma handlers_foreign:
  assumes "\<not> fails OpExecute" "tasks db T = Some t" "user_id t \<noteq> B"
  shows "fst (get_task fails T B db) = Inl (AppException 403 ERROR_FORBIDDEN)"
    and "fst (update_task fails T d B now db) = Inl (AppException 403 ERROR_FORBIDDEN)"
    and "fst (delete_task fails T B db) = Inl (AppException 403 ERROR_FORBIDDEN)"
    and "fst (toggle_task_completion fails T B now db) = Inl (AppException 403 ERROR_FORBIDDEN)"
  using assms
  by (simp_all add: get_task_def update_task_def delete_task_def toggle_task_completion_def
      authorizer_present and_then_def)

lemma handlers_success_owned:
  shows "fst (get_task fails T B db) = Inr r \<Longrightarrow> tasks db T = Some r \<and> user_id r = B"
    and "fst (update_task fails T d B now db) = Inr r \<Longrightarrow> \<exists>t. tasks db T = Some t \<and> user_id t = B"
    and "fst (delete_task fails T B db) = Inr u \<Longrightarrow> \<exists>t. tasks db T = Some t \<and> user_id t = B"
    and "fst (toggle_task_completion fails T B now db) = Inr r \<Longrightarrow> \<exists>t. tasks db T = Some t \<and> user_id t = B"
  unfolding get_task_def update_task_def delete_task_def toggle_task_completion_def
    except_clauses_Inr
  by (blast dest: and_then_Inr authorizer_success)+

lemma get_owned:
  assumes "\<not> fails OpExecute" "tasks db T = Some t" "user_id t = B"
  shows "fst (get_task fails T B db) = Inr t"
  using assms by (simp add: get_task_def authorizer_present)

lemma update_task_owned:
  assumes "\<not> fails OpExecute" "\<not> fails OpCommit" "\<not> fails OpRefresh"
    "tasks db T = Some t" "user_id t = B"
  shows "fst (update_task fails T d B now db) =
     Inr (t\<lparr>title := (case tu_title d of Some x \<Rightarrow> x | None \<Rightarrow> title t),
            description := (case tu_description d of Some x \<Rightarrow> Some x | None \<Rightarrow> description t),
            updated_at := now\<rparr>)"
  using assms
  by (simp add: update_task_def authorizer_present and_then_def commit_ok
      session_dirty_def session_refresh_def Let_def split: option.splits)

lemma toggle_owned:
  assumes "\<not> fails OpExecute" "\<not> fails OpCommit" "\<not> fails OpRefresh"
    "tasks db T = Some t" "user_id t = B"
  shows "fst (toggle_task_completion fails T B now db) =
     Inr (t\<lparr>completed := \<not> completed t, updated_at := now\<rparr>)"
  using assms
  by (simp add: toggle_task_completion_def authorizer_present and_then_def commit_ok
      session_dirty_def session_refresh_def Let_def split: option.splits)

lemma delete_owned:
  assumes "\<not> fails OpExecute" "\<not> fails OpCommit" "\<not> fails OpDelete"
    "tasks db T = Some t" "user_id t = B"
  shows "fst (delete_task fails T B db) = Inr ()"
  using assms
  by (simp add: delete_task_def authorizer_present and_then_def commit_ok
      session_delete_def Let_def)

text \<open>What a successful handler has done, on a session with nothing staged.\<close>

lemma toggle_success:
  assumes "toggle_task_completion fails T B now db = (Inr r, db')" "pending db = []"
  shows "\<exists>t. tasks db T = Some t \<and> user_id t = B
           \<and> r = t\<lparr>completed := \<not> completed t, updated_at := now\<rparr>
           \<and> tasks db' = (tasks db)(T \<mapsto> r) \<and> next_id db' = next_id db
           \<and> pending db' = [] \<and> locked db' = []
           \<and> trace db' = trace db @ [SelectTask T True, Commit, Refresh T]"
  using assms
  by (cases "tasks db T"; cases "fails OpExecute"; cases "fails OpCommit"; cases "fails OpRefresh")
     (auto simp add: handler_defs Let_def split: option.splits if_splits)

lemma update_success:
  assumes "update_task fails T d B now db = (Inr r, db')" "pending db = []"
  shows "\<exists>t. tasks db T = Some t \<and> user_id t = B
           \<and> r = t\<lparr>title := (case tu_title d of Some x \<Rightarrow> x | None \<Rightarrow> title t),
                    description := (case tu_description d of Some x \<Rightarrow> Some x
                                    | None \<Rightarrow> description t),
                    updated_at := now\<rparr>
           \<and> tasks db' = (tasks db)(T \<mapsto> r) \<and> next_id db' = next_id db
           \<and> pending db' = [] \<and> locked db' = []
           \<and> trace db' = trace db @ [SelectTask T False, Commit, Refresh T]"
  using assms
  by (cases "tasks db T"; cases "fails OpExecute"; cases "fails OpCommit"; cases "fails OpRefresh")
     (auto simp add: handler_defs Let_def split: option.splits if_splits)

lemma create_success:
  assumes "create_task fails d B now1 now2 db = (Inr r, db')" "pending db = []"
  shows "r = \<lparr>id' = Some (next_id db), user_id = B, title = tc_title d,
              description = tc_description d, completed = False,
              created_at = now1, updated_at = now2\<rparr>
         \<and> tasks db' = (tasks db)(next_id db \<mapsto> r) \<and> next_id db' = next_id db + 1"
  using assms
  by (cases "fails OpCommit"; cases "fails OpRefresh")
     (auto simp add: handler_defs Let_def split: option.splits if_splits)

lemma create_no_faults:
  assumes "pending db = []"
  shows "\<exists>r db'. create_task no_faults d B now1 now2 db = (Inr r, db')"
  using assms by (simp add: handler_defs no_faults_def Let_def)

text \<open>The fetch of each handler, whatever fails.\<close>

lemma fetches_toggle:
  "trace db = [] \<Longrightarrow> fetches (toggle_task_completion fails T B now db) = [SelectTask T True]"
  by (cases "tasks db T"; cases "fails OpExecute"; cases "fails OpCommit"; cases "fails OpRefresh")
     (simp_all add: handler_defs fetches_def Let_def split: option.splits)

lemma fetches_update:
  "trace db = [] \<Longrightarrow> fetches (update_task fails T d B now db) = [SelectTask T False]"
  by (cases "tasks db T"; cases "fails OpExecute"; cases "fails OpCommit"; cases "fails OpRefresh")
     (simp_all add: handler_defs fetches_def Let_def split: option.splits)

lemma fetches_delete:
  "trace db = [] \<Longrightarrow> fetches (delete_task fails T B db) = [SelectTask T False]"
  by (cases "tasks db T"; cases "fails OpExecute"; cases "fails OpCommit"; cases "fails OpDelete")
     (simp_all add: handler_defs fetches_def Let_def split: option.splits)

section \<open>Facts about the request schemas\<close>

lemma strip_Nil [simp]: "strip [] = []"
  by (simp add: strip_def)

lemma strip_eq_Nil_iff: "strip s = [] \<longleftrightarrow> list_all is_space s"
proof -
  have "strip s = [] \<longleftrightarrow> (\<forall>x\<in>set (dropWhile is_space s). is_space x)"
    by (simp add: strip_def dropWhile_eq_Nil_conv)
  also have "\<dots> \<longleftrightarrow> dropWhile is_space s = []"
  proof
    assume a: "\<forall>x\<in>set (dropWhile is_space s). is_space x"
    show "dropWhile is_space s = []"
    proof (rule ccontr)
      assume n: "dropWhile is_space s \<noteq> []"
      then have "\<not> is_space (hd (dropWhile is_space s))" by (rule hd_dropWhile)
      moreover from n have "hd (dropWhile is_space s) \<in> set (dropWhile is_space s)" by simp
      ultimately show False using a by blast
    qed
  qed (auto dest: set_dropWhileD)
  also have "\<dots> \<longleftrightarrow> list_all is_space s"
    by (simp add: dropWhile_eq_Nil_conv list_all_iff)
  finally show ?thesis .
qed

lemma strip_examples:
  "strip ''  buy bread '' = ''buy bread''" "strip ''   '' = []"
  by (simp_all add: strip_def is_space_def)

lemma strip_examples2:
  "strip '' call mum'' = ''call mum''" "strip ''weekly'' = ''weekly''"
  by (simp_all add: strip_def is_space_def)

lemma schema_update_title:
  "TaskUpdate_schema body = Inr d \<Longrightarrow>
   tu_title d = map_option strip (ub_title body) \<and>
   (\<forall>v. tu_title d = Some v \<longrightarrow> v \<noteq> [])"
  by (auto simp: TaskUpdate_schema_def title_not_empty_opt_def check_description_def
      split: option.splits if_splits sum.splits)

lemma schema_update_description:
  "TaskUpdate_schema body = Inr d \<Longrightarrow>
   tu_description d = description_strip (ub_description body)"
  by (auto simp: TaskUpdate_schema_def title_not_empty_opt_def check_description_def
      description_strip_def split: option.splits if_splits sum.splits)

lemma schema_create:
  "TaskCreate_schema body = Inr d \<Longrightarrow>
   (\<exists>v. cb_title body = Some v \<and> tc_title d = strip v \<and> strip v \<noteq> []) \<and>
   tc_description d = (case cb_description body of None \<Rightarrow> None
                       | Some s \<Rightarrow> if s = [] then None else Some (strip s))"
  by (auto simp: TaskCreate_schema_def title_not_empty_def check_description_def
      description_strip_def split: option.splits if_splits sum.splits)

lemma PUT_success:
  assumes "PUT_task fails T body B now db = (Inr r, db')" "pending db = []"
  shows "\<exists>t. tasks db T = Some t \<and> user_id t = B
           \<and> r = t\<lparr>title := (case ub_title body of None \<Rightarrow> title t | Some v \<Rightarrow> strip v),
                    description := (case ub_description body of
                                      None \<Rightarrow> description t
                                    | Some s \<Rightarrow> if s = [] then description t else Some (strip s)),
                    updated_at := now\<rparr>
           \<and> tasks db' = (tasks db)(T \<mapsto> r) \<and> next_id db' = next_id db"
proof -
  from assms(1) obtain d where d: "TaskUpdate_schema body = Inr d"
    and u: "update_task fails T d B now db = (Inr r, db')"
    by (auto simp: PUT_task_def split: sum.splits)
  from update_success [OF u assms(2)] obtain t where t: "tasks db T = Some t" "user_id t = B"
    "r = t\<lparr>title := (case tu_title d of Some x \<Rightarrow> x | None \<Rightarrow> title t),
                    description := (case tu_description d of Some x \<Rightarrow> Some x
                                    | None \<Rightarrow> description t),
                    updated_at := now\<rparr>"
    "tasks db' = (tasks db)(T \<mapsto> r)" "next_id db' = next_id db"
    by blast
  have 1: "(case tu_title d of Some x \<Rightarrow> x | None \<Rightarrow> title t) =
           (case ub_title body of None \<Rightarrow> title t | Some v \<Rightarrow> strip v)"
    using schema_update_title [OF d] by (simp split: option.splits)
  have 2: "(case tu_description d of Some x \<Rightarrow> Some x | None \<Rightarrow> description t) =
           (case ub_description body of None \<Rightarrow> description t
            | Some s \<Rightarrow> if s = [] then description t else Some (strip s))"
    using schema_update_description [OF d]
    by (simp add: description_strip_def split: option.splits)
  show ?thesis using t 1 2 by simp
qed

lemma PUT_ignores_owner:
  "PUT_task fails T (body\<lparr>ub_user_id := owner\<rparr>) B now db = PUT_task fails T body B now db"
  by (simp add: PUT_task_def TaskUpdate_schema_def split: sum.splits)

lemma PUT_owned:
  assumes "tasks db T = Some t" "user_id t = B" "TaskUpdate_schema body = Inr d"
  shows "\<exists>r. fst (PUT_task no_faults T body B now db) = Inr r"
  using assms by (simp add: PUT_task_def update_task_owned no_faults_def)

text \<open>The example requests, evaluated.\<close>

lemma schema_retitle:
  "TaskUpdate_schema retitle_body = Inr \<lparr>tu_title = Some ''buy bread'', tu_description = None\<rparr>"
  by (simp add: TaskUpdate_schema_def title_not_empty_opt_def check_description_def
      retitle_body_def strip_examples)

lemma PUT_retitle:
  "PUT_task no_faults 1 retitle_body ''alice'' 200 example_db =
     (Inr (alice_task\<lparr>title := ''buy bread'', updated_at := 200\<rparr>),
      example_db\<lparr>tasks := [1 \<mapsto> alice_task\<lparr>title := ''buy bread'', updated_at := 200\<rparr>],
                  trace := [SelectTask 1 False, Commit, Refresh 1]\<rparr>)"
  by (simp add: PUT_task_def TaskUpdate_schema_def title_not_empty_opt_def
      check_description_def retitle_body_def strip_examples
      handler_defs no_faults_def example_db_def alice_task_def Let_def issue_def)

lemma PUT_blank:
  "PUT_task no_faults 1 blank_body ''alice'' 200 example_db =
     (Inr (alice_task\<lparr>description := Some [], updated_at := 200\<rparr>),
      example_db\<lparr>tasks := [1 \<mapsto> alice_task\<lparr>description := Some [], updated_at := 200\<rparr>],
                  trace := [SelectTask 1 False, Commit, Refresh 1]\<rparr>)"
  by (simp add: PUT_task_def TaskUpdate_schema_def title_not_empty_opt_def
      check_description_def description_strip_def blank_body_def strip_examples
      handler_defs no_faults_def example_db_def alice_task_def Let_def issue_def)

lemma PUT_empty_description:
  "PUT_task no_faults 1 empty_description_body ''alice'' 200 example_db =
     (Inr (alice_task\<lparr>updated_at := 200\<rparr>),
      example_db\<lparr>tasks := [1 \<mapsto> alice_task\<lparr>updated_at := 200\<rparr>],
                  trace := [SelectTask 1 False, Commit, Refresh 1]\<rparr>)"
  by (simp add: PUT_task_def TaskUpdate_schema_def title_not_empty_opt_def
      check_description_def description_strip_def empty_description_body_def
      handler_defs no_faults_def example_db_def alice_task_def Let_def issue_def)

lemma schema_call:
  "TaskCreate_schema call_body = Inr \<lparr>tc_title = ''call mum'', tc_description = Some ''weekly''\<rparr>"
  by (simp add: TaskCreate_schema_def title_not_empty_def check_description_def
      description_strip_def call_body_def strip_examples2)

lemma POST_call:
  "POST_tasks no_faults call_body ''alice'' 100 101 empty_db =
     (Inr call_task,
      empty_db\<lparr>tasks := [1 \<mapsto> call_task], next_id := 2, trace := [Commit, Refresh 1]\<rparr>)"
  by (simp add: POST_tasks_def TaskCreate_schema_def title_not_empty_def
      check_description_def description_strip_def call_body_def call_task_def strip_examples2
      handler_defs no_faults_def empty_db_def Let_def issue_def)

lemma update_commit_fails:
  "update_task commit_fails 1 \<lparr>tu_title = Some ''buy bread'', tu_description = None\<rparr>
       ''alice'' 200 example_db =
     (Inl (AppException 500 ERROR_INTERNAL_SERVER),
      example_db\<lparr>trace := [SelectTask 1 False, Commit, Rollback]\<rparr>)"
  by (simp add: handler_defs commit_fails_def example_db_def alice_task_def
      Let_def issue_def)

section \<open>Facts about exceptions and the transaction\<close>

lemmas atomic_defs =
  atomic_on_error_def is_authz_error_def get_db_def session_close_def new_session_def
  ERROR_FORBIDDEN_def ERROR_TASK_NOT_FOUND_def ERROR_INTERNAL_SERVER_def

lemma atomic_create:
  "new_session db \<Longrightarrow> atomic_on_error (create_task fails d B now1 now2) db"
  by (cases "fails OpCommit"; cases "fails OpRefresh")
     (simp_all add: atomic_defs handler_defs Let_def)

lemma atomic_update:
  "new_session db \<Longrightarrow> atomic_on_error (update_task fails T u B now) db"
  by (cases "tasks db T"; cases "fails OpExecute"; cases "fails OpCommit"; cases "fails OpRefresh")
     (simp_all add: atomic_defs handler_defs Let_def split: option.splits)

lemma atomic_delete:
  "new_session db \<Longrightarrow> atomic_on_error (delete_task fails T B) db"
  by (cases "tasks db T"; cases "fails OpExecute"; cases "fails OpCommit"; cases "fails OpDelete")
     (simp_all add: atomic_defs handler_defs Let_def split: option.splits)

lemma atomic_toggle:
  "new_session db \<Longrightarrow> atomic_on_error (toggle_task_completion fails T B now) db"
  by (cases "tasks db T"; cases "fails OpExecute"; cases "fails OpCommit"; cases "fails OpRefresh")
     (simp_all add: atomic_defs handler_defs Let_def split: option.splits)

section \<open>Facts about tokens\<close>

lemma timegm_mono: "a \<le> b \<Longrightarrow> timegm a \<le> timegm b"
  by (simp add: timegm_def zdiv_mono1)

lemma timegm_next_second: "a + 1000000 \<le> b \<Longrightarrow> timegm a < timegm b"
proof -
  assume "a + 1000000 \<le> b"
  then have "timegm (a + 1000000) \<le> timegm b" by (rule timegm_mono)
  moreover have "timegm (a + 1000000) = timegm a + 1" by (simp add: timegm_def)
  ultimately show ?thesis by simp
qed

lemma hours_24: "hours 24 = 86400000000"
  by (simp add: hours_def)

lemma verify_issued:
  "verify_jwt secret t (create_access_token secret U expires_delta now1 now2) =
     (if timegm (now1 + (case expires_delta of None \<Rightarrow> hours 24 | Some d \<Rightarrow> d)) < timegm t
      then Inl (AppException 401 ERROR_TOKEN_EXPIRED)
      else if U = [] then Inl (AppException 401 ERROR_INVALID_TOKEN)
      else Inr \<lparr>sub = Some U,
                exp = Some (timegm (now1 + (case expires_delta of None \<Rightarrow> hours 24 | Some d \<Rightarrow> d))),
                iat = Some (timegm now2)\<rparr>)"
  by (simp add: verify_jwt_def create_access_token_def jwt_encode_def Let_def)

lemma guard_verified:
  "verify_jwt secret t tok = Inr p \<Longrightarrow> sub p = Some U \<Longrightarrow>
   get_current_user secret t (Some tok) = Inr U"
  by (simp add: get_current_user_def)



section \<open>Facts about signup\<close>

lemma email_new_user [simp]: "email (new_user env request) = sr_email request"
  and id_new_user [simp]: "User.id' (new_user env request) = new_id env"
  by (simp_all add: new_user_def)








text \<open>A signup that runs alone is its two steps in a row.\<close>

lemma signup_is_two_steps:
  "signup_step env request (signup_step env request (Start, users)) =
     (Finished (fst (signup env request users)), snd (signup env request users))"
  by (simp add: signup_def split: sum.splits prod.splits)

text \<open>The six schedules are all the orders in which two requests of two steps each can
  take their steps.\<close>

lemma interleavings_complete:
  "sched \<in> set interleavings \<longleftrightarrow>
     length sched = 4 \<and> length (filter (\<lambda>turn. turn) sched) = 2"
proof
  assume "sched \<in> set interleavings"
  then show "length sched = 4 \<and> length (filter (\<lambda>turn. turn) sched) = 2"
    by (auto simp: interleavings_def)
next
  assume a: "length sched = 4 \<and> length (filter (\<lambda>turn. turn) sched) = 2"
  then obtain t1 t2 t3 t4 where s: "sched = [t1, t2, t3, t4]"
    by (auto simp: length_Suc_conv numeral_eq_Suc)
  with a show "sched \<in> set interleavings"
    by (cases t1; cases t2; cases t3; cases t4) (simp_all add: interleavings_def)
qed


section \<open>Ownership: not found before forbidden\<close>

text \<open>
  Claim C1. For every subject \<open>B\<close> and task id \<open>T\<close>, each of get, update, delete and
  toggle fails with \<^verbatim>\<open>TASK_NOT_FOUND\<close> (404) when no task with id \<open>T\<close> exists and with
  \<^verbatim>\<open>FORBIDDEN\<close> (403) when the task exists and its owner is not \<open>B\<close>: absence is found
  before ownership is looked at. This holds whenever the fetch itself does not fail,
  whatever else does. An operation succeeds only when the task exists and is owned by
  \<open>B\<close>; and when it is and the storage works, get returns the task, update and toggle
  return the row of that task, and delete succeeds. No path lets another subject through.
\<close>

theorem C1_not_found_then_forbidden:
  "(\<not> fails OpExecute \<and> tasks db T = None \<longrightarrow>
      fst (get_task fails T B db) = Inl (AppException 404 ERROR_TASK_NOT_FOUND) \<and>
      fst (update_task fails T d B now db) = Inl (AppException 404 ERROR_TASK_NOT_FOUND) \<and>
      fst (delete_task fails T B db) = Inl (AppException 404 ERROR_TASK_NOT_FOUND) \<and>
      fst (toggle_task_completion fails T B now db) = Inl (AppException 404 ERROR_TASK_NOT_FOUND))
   \<and> (\<not> fails OpExecute \<and> tasks db T = Some t \<and> user_id t \<noteq> B \<longrightarrow>
      fst (get_task fails T B db) = Inl (AppException 403 ERROR_FORBIDDEN) \<and>
      fst (update_task fails T d B now db) = Inl (AppException 403 ERROR_FORBIDDEN) \<and>
      fst (delete_task fails T B db) = Inl (AppException 403 ERROR_FORBIDDEN) \<and>
      fst (toggle_task_completion fails T B now db) = Inl (AppException 403 ERROR_FORBIDDEN))
   \<and> ((\<exists>r. fst (get_task fails T B db) = Inr r) \<or>
       (\<exists>r. fst (update_task fails T d B now db) = Inr r) \<or>
       (\<exists>r. fst (delete_task fails T B db) = Inr r) \<or>
       (\<exists>r. fst (toggle_task_completion fails T B now db) = Inr r) \<longrightarrow>
      (\<exists>t. tasks db T = Some t \<and> user_id t = B))
   \<and> (tasks db T = Some t \<and> user_id t = B \<longrightarrow>
      fst (get_task no_faults T B db) = Inr t \<and>
      (\<exists>r. fst (update_task no_faults T d B now db) = Inr r \<and> id' r = id' t \<and> user_id r = B) \<and>
      fst (delete_task no_faults T B db) = Inr () \<and>
      (\<exists>r. fst (toggle_task_completion no_faults T B now db) = Inr r \<and> id' r = id' t \<and> user_id r = B))"
proof (intro conjI impI)
  assume "(\<exists>r. fst (get_task fails T B db) = Inr r) \<or>
       (\<exists>r. fst (update_task fails T d B now db) = Inr r) \<or>
       (\<exists>r. fst (delete_task fails T B db) = Inr r) \<or>
       (\<exists>r. fst (toggle_task_completion fails T B now db) = Inr r)"
  then show "\<exists>t. tasks db T = Some t \<and> user_id t = B"
    using handlers_success_owned [of fails T] by blast
qed (simp_all add: handlers_absent handlers_foreign get_owned update_task_owned toggle_owned
      delete_owned no_faults_def)

text \<open>Witness for C1: a missing task, a task of alice asked for by bob, and alice's own.\<close>

theorem C1_witness:
  "\<not> no_faults OpExecute \<and> tasks example_db 2 = None \<and>
   tasks example_db 1 = Some alice_task \<and> user_id alice_task \<noteq> ''bob'' \<and>
   user_id alice_task = ''alice''
   \<and> fst (get_task no_faults 2 ''alice'' example_db) = Inl (AppException 404 ERROR_TASK_NOT_FOUND)
   \<and> fst (delete_task no_faults 2 ''alice'' example_db) = Inl (AppException 404 ERROR_TASK_NOT_FOUND)
   \<and> fst (get_task no_faults 1 ''bob'' example_db) = Inl (AppException 403 ERROR_FORBIDDEN)
   \<and> fst (toggle_task_completion no_faults 1 ''bob'' 200 example_db) =
        Inl (AppException 403 ERROR_FORBIDDEN)
   \<and> fst (get_task no_faults 1 ''alice'' example_db) = Inr alice_task
   \<and> fst (delete_task no_faults 1 ''alice'' example_db) = Inr ()"
proof -
  have h: "\<not> no_faults OpExecute" "tasks example_db 2 = None"
    "tasks example_db 1 = Some alice_task" "user_id alice_task \<noteq> ''bob''"
    "user_id alice_task = ''alice''"
    by (simp_all add: no_faults_def example_db_def alice_task_def)
  from h
    C1_not_found_then_forbidden [of no_faults example_db 2 "''alice''"
      "\<lparr>tu_title = None, tu_description = None\<rparr>" 200 alice_task]
    C1_not_found_then_forbidden [of no_faults example_db 1 "''bob''"
      "\<lparr>tu_title = None, tu_description = None\<rparr>" 200 alice_task]
    C1_not_found_then_forbidden [of no_faults example_db 1 "''alice''"
      "\<lparr>tu_title = None, tu_description = None\<rparr>" 200 alice_task]
  show ?thesis by simp
qed

section \<open>Row locks\<close>

text \<open>
  Claim C2, as amended. Of the handlers that fetch a task and then write, only the
  completion toggle fetches with the lock flag set (\<^verbatim>\<open>SELECT ... FOR UPDATE\<close>), and it makes
  no unlocked fetch; the partial update and the delete each make one fetch, without the
  lock. This holds on every path of each handler, whatever fails.
\<close>

theorem C2_only_toggle_locks:
  "trace db = [] \<Longrightarrow>
   fetches (toggle_task_completion fails T B now db) = [SelectTask T True] \<and>
   fetches (update_task fails T d B now db) = [SelectTask T False] \<and>
   fetches (delete_task fails T B db) = [SelectTask T False]"
  by (simp add: fetches_toggle fetches_update fetches_delete)

text \<open>Witness for C2: the three handlers on alice's task.\<close>

theorem C2_witness:
  "trace example_db = [] \<and>
   fetches (toggle_task_completion no_faults 1 ''alice'' 200 example_db) = [SelectTask 1 True] \<and>
   fetches (update_task no_faults 1 \<lparr>tu_title = Some ''buy bread'', tu_description = None\<rparr>
              ''alice'' 200 example_db) = [SelectTask 1 False] \<and>
   fetches (delete_task no_faults 1 ''alice'' example_db) = [SelectTask 1 False]"
proof -
  have h: "trace example_db = []" by (simp add: example_db_def)
  show ?thesis using h C2_only_toggle_locks [OF h] by simp
qed

text \<open>
  Counterexample to C2 as stated (every read-modify-write fetch is locked, the partial
  update included): alice's update of her task succeeds, and the calls its session
  received are an unlocked fetch, the commit and the refresh.
\<close>

theorem C2_update_fetch_unlocked:
  "fst (update_task no_faults 1 \<lparr>tu_title = Some ''buy bread'', tu_description = None\<rparr>
          ''alice'' 200 example_db) = Inr (alice_task\<lparr>title := ''buy bread'', updated_at := 200\<rparr>)
   \<and> trace (snd (update_task no_faults 1 \<lparr>tu_title = Some ''buy bread'', tu_description = None\<rparr>
          ''alice'' 200 example_db)) = [SelectTask 1 False, Commit, Refresh 1]"
  by (simp add: handler_defs no_faults_def example_db_def alice_task_def Let_def)

section \<open>Token life time\<close>

text \<open>
  Claim C3, as amended. A token issued for a non-empty subject id \<open>U\<close> with the process
  secret verifies to subject \<open>U\<close> at every time up to its expiry instant, and on until
  the clock second of that instant is over (the token carries its expiry in whole
  seconds). Once the clock's second is past the expiry's second, which is so from one
  second after the expiry instant at the latest, verification fails with
  \<^verbatim>\<open>TOKEN_EXPIRED\<close>, not \<^verbatim>\<open>INVALID_TOKEN\<close>, and this for every subject id.
\<close>

theorem C3_token_valid_until_expiry_second:
  "expire = now1 + (case expires_delta of None \<Rightarrow> hours 24 | Some d \<Rightarrow> d) \<and>
   tok = create_access_token secret U expires_delta now1 now2 \<longrightarrow>
     (U \<noteq> [] \<and> (t \<le> expire \<or> timegm t \<le> timegm expire) \<longrightarrow>
        verify_jwt secret t tok =
          Inr \<lparr>sub = Some U, exp = Some (timegm expire), iat = Some (timegm now2)\<rparr> \<and>
        get_current_user secret t (Some tok) = Inr U)
     \<and> (expire + 1000000 \<le> t \<or> timegm expire < timegm t \<longrightarrow>
        verify_jwt secret t tok = Inl (AppException 401 ERROR_TOKEN_EXPIRED))"
proof (intro impI conjI)
  assume a: "expire = now1 + (case expires_delta of None \<Rightarrow> hours 24 | Some d \<Rightarrow> d) \<and>
   tok = create_access_token secret U expires_delta now1 now2"
  {
    assume b: "U \<noteq> [] \<and> (t \<le> expire \<or> timegm t \<le> timegm expire)"
    then have le: "timegm t \<le> timegm expire" using timegm_mono by blast
    with a b show v: "verify_jwt secret t tok =
          Inr \<lparr>sub = Some U, exp = Some (timegm expire), iat = Some (timegm now2)\<rparr>"
      by (simp add: verify_issued)
    then show "get_current_user secret t (Some tok) = Inr U"
      by (simp add: guard_verified)
  }
  {
    assume "expire + 1000000 \<le> t \<or> timegm expire < timegm t"
    then have "timegm expire < timegm t" using timegm_next_second by blast
    with a show "verify_jwt secret t tok = Inl (AppException 401 ERROR_TOKEN_EXPIRED)"
      by (simp add: verify_issued)
  }
qed

text \<open>Witness for C3: a token for \<open>u1\<close> issued at instant 0 for 24 hours, read 5
  microseconds after issue and one second after expiry.\<close>

theorem C3_witness:
  "''u1'' \<noteq> [] \<and> (5 :: int) \<le> 0 + hours 24 \<and>
   verify_jwt ''k'' 5 (create_access_token ''k'' ''u1'' None 0 0) =
     Inr \<lparr>sub = Some ''u1'', exp = Some 86400, iat = Some 0\<rparr> \<and>
   get_current_user ''k'' 5 (Some (create_access_token ''k'' ''u1'' None 0 0)) = Inr ''u1'' \<and>
   (0 :: int) + hours 24 + 1000000 \<le> 86401000000 \<and>
   verify_jwt ''k'' 86401000000 (create_access_token ''k'' ''u1'' None 0 0) =
     Inl (AppException 401 ERROR_TOKEN_EXPIRED)"
  using C3_token_valid_until_expiry_second [of "0 + hours 24" 0 None _ "''k''" "''u1''" 0 5]
    C3_token_valid_until_expiry_second [of "0 + hours 24" 0 None _ "''k''" "''u1''" 0 86401000000]
  by (simp add: hours_24 timegm_def)

text \<open>
  Counterexample to C3 as stated (every subject id; expired at any time after the expiry
  instant): the token issued for the empty subject id fails with \<^verbatim>\<open>INVALID_TOKEN\<close> well
  before its expiry, and the token issued for \<open>u1\<close> still verifies one microsecond
  after its expiry instant.
\<close>

theorem C3_empty_subject_and_same_second:
  "verify_jwt ''k'' 0 (create_access_token ''k'' [] None 0 0) =
     Inl (AppException 401 ERROR_INVALID_TOKEN) \<and>
   (0 :: int) < 0 + hours 24 \<and>
   verify_jwt ''k'' (0 + hours 24 + 1) (create_access_token ''k'' ''u1'' None 0 0) =
     Inr \<lparr>sub = Some ''u1'', exp = Some 86400, iat = Some 0\<rparr> \<and>
   (0 :: int) + hours 24 < 0 + hours 24 + 1"
  by (simp add: verify_issued hours_24 timegm_def)

section \<open>The authentication guard\<close>




section \<open>Signup\<close>



section \<open>Exceptions and the transaction\<close>

text \<open>
  Claim C6, as amended. For each of create, update, delete and toggle, run on the new
  session of a request: when the handler raises and no refresh had been reached (the
  exception is a 403 or 404 of the authorizer, or a failure of the fetch, of marking
  the deletion or of the commit), the stored tasks are exactly what they were before the
  request. On a storage failure the handler rolls back, leaving nothing staged and
  nothing locked, and raises 500. On a 403 or 404 the handler re-raises without rolling
  back; the open transaction, with the row lock a toggle acquired, ends when
  \<^verbatim>\<open>get_db\<close> closes the session. (What a failing refresh after a successful commit
  leaves is not part of this statement.)
\<close>

theorem C6_state_unchanged_before_commit:
  "new_session db \<longrightarrow>
     atomic_on_error (create_task fails d B now1 now2) db \<and>
     atomic_on_error (update_task fails T u B now) db \<and>
     atomic_on_error (delete_task fails T B) db \<and>
     atomic_on_error (toggle_task_completion fails T B now) db"
  by (simp add: atomic_create atomic_update atomic_delete atomic_toggle)

text \<open>Witness for C6: alice's update with a failing commit, and bob's toggle of alice's
  task.\<close>

theorem C6_witness:
  "new_session example_db \<and>
   atomic_on_error (update_task commit_fails 1
       \<lparr>tu_title = Some ''buy bread'', tu_description = None\<rparr> ''alice'' 200) example_db \<and>
   update_task commit_fails 1 \<lparr>tu_title = Some ''buy bread'', tu_description = None\<rparr>
       ''alice'' 200 example_db =
     (Inl (AppException 500 ERROR_INTERNAL_SERVER),
      example_db\<lparr>trace := [SelectTask 1 False, Commit, Rollback]\<rparr>) \<and>
   atomic_on_error (toggle_task_completion no_faults 1 ''bob'' 200) example_db"
proof -
  have h: "new_session example_db" by (simp add: new_session_def example_db_def)
  from C6_state_unchanged_before_commit [where db = example_db and fails = commit_fails
      and T = 1 and u = "\<lparr>tu_title = Some ''buy bread'', tu_description = None\<rparr>"
      and B = "''alice''" and now = 200]
    C6_state_unchanged_before_commit [where db = example_db and fails = no_faults
      and T = 1 and B = "''bob''" and now = 200]
    h update_commit_fails
  show ?thesis by simp
qed

text \<open>
  Counterexample to C6 as stated (on every exception the handler's transaction is
  rolled back and the stored state is unchanged): bob's toggle of alice's task raises 403
  while the handler's session still holds the row lock and has received no rollback;
  and alice's update whose refresh fails raises 500 although the new title is stored.
\<close>

theorem C6_no_rollback_on_403_and_late_failure:
  "toggle_task_completion no_faults 1 ''bob'' 200 example_db =
     (Inl (AppException 403 ERROR_FORBIDDEN),
      example_db\<lparr>locked := [1], trace := [SelectTask 1 True]\<rparr>) \<and>
   update_task refresh_fails 1 \<lparr>tu_title = Some ''buy bread'', tu_description = None\<rparr>
       ''alice'' 200 example_db =
     (Inl (AppException 500 ERROR_INTERNAL_SERVER),
      example_db\<lparr>tasks := [1 \<mapsto> alice_task\<lparr>title := ''buy bread'', updated_at := 200\<rparr>],
                  trace := [SelectTask 1 False, Commit, Refresh 1, Rollback]\<rparr>) \<and>
   tasks example_db = [1 \<mapsto> alice_task] \<and>
   alice_task\<lparr>title := ''buy bread'', updated_at := 200\<rparr> \<noteq> alice_task"
  by (simp add: handler_defs no_faults_def refresh_fails_def example_db_def alice_task_def
      Let_def issue_def)

section \<open>Partial update\<close>

text \<open>
  Claim C7. A successful \<^verbatim>\<open>PUT /tasks/{id}\<close> changes the title only when the body has
  one, to the submitted title as the schema normalises it (stripped), and the description
  only when the body has one, likewise; a field the body leaves out keeps its value. The
  id, the owner, the completed flag and \<^verbatim>\<open>created_at\<close> are unchanged, \<^verbatim>\<open>updated_at\<close> is
  set to the clock, and the row stored under the id is the task returned. An owner value
  in the body changes nothing at all. For the owner, a valid body and a working storage,
  the request does succeed.
\<close>

theorem C7_partial_update_frame:
  "(new_session db \<and> PUT_task fails T body B now db = (Inr r, db') \<longrightarrow>
      (\<exists>t. tasks db T = Some t \<and> user_id t = B \<and>
         title r = (case ub_title body of None \<Rightarrow> title t | Some v \<Rightarrow> strip v) \<and>
         description r = (case ub_description body of
                            None \<Rightarrow> description t
                          | Some s \<Rightarrow> if s = [] then description t else Some (strip s)) \<and>
         id' r = id' t \<and> user_id r = user_id t \<and> completed r = completed t \<and>
         created_at r = created_at t \<and> updated_at r = now \<and>
         tasks db' = (tasks db)(T \<mapsto> r)))
   \<and> PUT_task fails T (body\<lparr>ub_user_id := owner\<rparr>) B now db = PUT_task fails T body B now db
   \<and> (tasks db T = Some t \<and> user_id t = B \<and> TaskUpdate_schema body = Inr d \<longrightarrow>
        (\<exists>r. fst (PUT_task no_faults T body B now db) = Inr r))"
proof (intro conjI impI)
  assume "new_session db \<and> PUT_task fails T body B now db = (Inr r, db')"
  then have "PUT_task fails T body B now db = (Inr r, db')" "pending db = []"
    by (simp_all add: new_session_def)
  from PUT_success [OF this]
  show "\<exists>t. tasks db T = Some t \<and> user_id t = B \<and>
         title r = (case ub_title body of None \<Rightarrow> title t | Some v \<Rightarrow> strip v) \<and>
         description r = (case ub_description body of
                            None \<Rightarrow> description t
                          | Some s \<Rightarrow> if s = [] then description t else Some (strip s)) \<and>
         id' r = id' t \<and> user_id r = user_id t \<and> completed r = completed t \<and>
         created_at r = created_at t \<and> updated_at r = now \<and>
         tasks db' = (tasks db)(T \<mapsto> r)"
    by auto
next
  show "PUT_task fails T (body\<lparr>ub_user_id := owner\<rparr>) B now db = PUT_task fails T body B now db"
    by (rule PUT_ignores_owner)
next
  assume "tasks db T = Some t \<and> user_id t = B \<and> TaskUpdate_schema body = Inr d"
  then show "\<exists>r. fst (PUT_task no_faults T body B now db) = Inr r"
    using PUT_owned by blast
qed

text \<open>Witness for C7: alice retitles her task with a body that also names another owner.\<close>

theorem C7_witness:
  "new_session example_db \<and>
   PUT_task no_faults 1 retitle_body ''alice'' 200 example_db =
     (Inr (alice_task\<lparr>title := ''buy bread'', updated_at := 200\<rparr>),
      example_db\<lparr>tasks := [1 \<mapsto> alice_task\<lparr>title := ''buy bread'', updated_at := 200\<rparr>],
                  trace := [SelectTask 1 False, Commit, Refresh 1]\<rparr>) \<and>
   ub_user_id retitle_body = Some ''mallory'' \<and>
   user_id (alice_task\<lparr>title := ''buy bread'', updated_at := 200\<rparr>) = user_id alice_task \<and>
   tasks example_db 1 = Some alice_task \<and> user_id alice_task = ''alice'' \<and>
   TaskUpdate_schema retitle_body = Inr \<lparr>tu_title = Some ''buy bread'', tu_description = None\<rparr>"
proof -
  have h: "new_session example_db" "tasks example_db 1 = Some alice_task"
    "user_id alice_task = ''alice''" "ub_user_id retitle_body = Some ''mallory''"
    by (simp_all add: new_session_def example_db_def alice_task_def retitle_body_def)
  note c = C7_partial_update_frame [of example_db no_faults 1 retitle_body "''alice''" 200
      "alice_task\<lparr>title := ''buy bread'', updated_at := 200\<rparr>"
      "example_db\<lparr>tasks := [1 \<mapsto> alice_task\<lparr>title := ''buy bread'', updated_at := 200\<rparr>],
                  trace := [SelectTask 1 False, Commit, Refresh 1]\<rparr>"
      "Some ''mallory''" alice_task "\<lparr>tu_title = Some ''buy bread'', tu_description = None\<rparr>"]
  from c h(1) PUT_retitle
  have "\<exists>t. tasks example_db 1 = Some t \<and>
          user_id (alice_task\<lparr>title := ''buy bread'', updated_at := 200\<rparr>) = user_id t"
    by blast
  with h(2) have "user_id (alice_task\<lparr>title := ''buy bread'', updated_at := 200\<rparr>) =
      user_id alice_task"
    by simp
  with h PUT_retitle schema_retitle show ?thesis by simp
qed

section \<open>Create, then get\<close>

text \<open>
  Claim C8, as amended. After a successful \<^verbatim>\<open>POST /tasks\<close>, fetching the task by its
  assigned id as the same owner returns the task the creation returned: its title is the
  submitted title stripped, its description the submitted description stripped (none
  when none or the empty string was submitted), its completed flag is false,
  \<^verbatim>\<open>created_at\<close> is the clock as read first and \<^verbatim>\<open>updated_at\<close> the clock as read second
  while the task was built, so the two are equal only if the clock did not advance in
  between. A valid body on a working storage is created.
\<close>

theorem C8_create_then_get:
  "(new_session db \<and> POST_tasks fails body B now1 now2 db = (Inr r, db') \<longrightarrow>
      (\<exists>v k. cb_title body = Some v \<and> title r = strip v \<and> id' r = Some k \<and>
         description r = (case cb_description body of
                            None \<Rightarrow> None
                          | Some s \<Rightarrow> if s = [] then None else Some (strip s)) \<and>
         completed r = False \<and> user_id r = B \<and>
         created_at r = now1 \<and> updated_at r = now2 \<and>
         (\<forall>fails2 db2. \<not> fails2 OpExecute \<and> tasks db2 = tasks db' \<longrightarrow>
            fst (get_task fails2 k B db2) = Inr r)))
   \<and> (new_session db \<and> TaskCreate_schema body = Inr d \<longrightarrow>
        (\<exists>r db'. POST_tasks no_faults body B now1 now2 db = (Inr r, db')))"
proof (intro conjI impI)
  assume a: "new_session db \<and> POST_tasks fails body B now1 now2 db = (Inr r, db')"
  then obtain d where d: "TaskCreate_schema body = Inr d"
    and c: "create_task fails d B now1 now2 db = (Inr r, db')"
    by (auto simp: POST_tasks_def split: sum.splits)
  from a have p: "pending db = []" by (simp add: new_session_def)
  note cs = create_success [OF c p]
  from schema_create [OF d] obtain v where v: "cb_title body = Some v" "tc_title d = strip v"
    and ds: "tc_description d = (case cb_description body of None \<Rightarrow> None
                       | Some s \<Rightarrow> if s = [] then None else Some (strip s))"
    by blast
  have g: "\<forall>fails2 db2. \<not> fails2 OpExecute \<and> tasks db2 = tasks db' \<longrightarrow>
            fst (get_task fails2 (next_id db) B db2) = Inr r"
  proof (intro allI impI)
    fix fails2 :: "db_op \<Rightarrow> bool" and db2 :: AsyncSession
    assume h: "\<not> fails2 OpExecute \<and> tasks db2 = tasks db'"
    then have "tasks db2 (next_id db) = Some r" using cs by simp
    moreover have "user_id r = B" using cs by simp
    ultimately show "fst (get_task fails2 (next_id db) B db2) = Inr r"
      using h by (simp add: get_owned)
  qed
  show "\<exists>v k. cb_title body = Some v \<and> title r = strip v \<and> id' r = Some k \<and>
         description r = (case cb_description body of
                            None \<Rightarrow> None
                          | Some s \<Rightarrow> if s = [] then None else Some (strip s)) \<and>
         completed r = False \<and> user_id r = B \<and>
         created_at r = now1 \<and> updated_at r = now2 \<and>
         (\<forall>fails2 db2. \<not> fails2 OpExecute \<and> tasks db2 = tasks db' \<longrightarrow>
            fst (get_task fails2 k B db2) = Inr r)"
    apply (rule exI [of _ v], rule exI [of _ "next_id db"])
    using cs v ds g by simp
next
  assume "new_session db \<and> TaskCreate_schema body = Inr d"
  then show "\<exists>r db'. POST_tasks no_faults body B now1 now2 db = (Inr r, db')"
    using create_no_faults [of db d B now1 now2]
    by (simp add: POST_tasks_def new_session_def)
qed

text \<open>Witness for C8: alice creates a task on the empty table.\<close>

theorem C8_witness:
  "new_session empty_db \<and>
   TaskCreate_schema call_body = Inr \<lparr>tc_title = ''call mum'', tc_description = Some ''weekly''\<rparr> \<and>
   POST_tasks no_faults call_body ''alice'' 100 101 empty_db =
     (Inr call_task,
      empty_db\<lparr>tasks := [1 \<mapsto> call_task], next_id := 2, trace := [Commit, Refresh 1]\<rparr>) \<and>
   completed call_task = False \<and> created_at call_task = 100 \<and> updated_at call_task = 101"
proof -
  have h: "new_session empty_db" by (simp add: new_session_def empty_db_def)
  note c = C8_create_then_get [of empty_db no_faults call_body "''alice''" 100 101 call_task
      "empty_db\<lparr>tasks := [1 \<mapsto> call_task], next_id := 2, trace := [Commit, Refresh 1]\<rparr>"
      "\<lparr>tc_title = ''call mum'', tc_description = Some ''weekly''\<rparr>"]
  from c h POST_call
  have "completed call_task = False \<and> created_at call_task = 100 \<and> updated_at call_task = 101"
    by blast
  with h POST_call schema_call show ?thesis by simp
qed

text \<open>
  Counterexample to C8 as stated (\<^verbatim>\<open>created_at\<close> equals \<^verbatim>\<open>updated_at\<close>): the clock
  reads 100 and then 101 during the creation; the task created, and fetched again, has the
  two timestamps apart.
\<close>

theorem C8_timestamps_differ:
  "fst (POST_tasks no_faults call_body ''alice'' 100 101 empty_db) = Inr call_task \<and>
   fst (get_task no_faults 1 ''alice''
          (session_close (snd (POST_tasks no_faults call_body ''alice'' 100 101 empty_db)))) =
     Inr call_task \<and>
   created_at call_task = 100 \<and> updated_at call_task = 101 \<and>
   created_at call_task \<noteq> updated_at call_task"
  by (simp add: POST_call)
     (simp add: call_task_def get_task_def get_user_task_or_404_def session_execute_def
        session_close_def no_faults_def empty_db_def Let_def)

section \<open>Completion toggle\<close>

text \<open>
  Claim C9. For a task owned by the caller, a successful
  \<^verbatim>\<open>PATCH /tasks/{id}/complete\<close> returns the task with its completed flag negated,
  \<^verbatim>\<open>updated_at\<close> set to the clock and every other field as it was, and stores it; the only
  fetch of its session is a locked one. With a working storage the request does succeed.
\<close>

theorem C9_toggle_flips_completed:
  "new_session db \<and> tasks db T = Some t \<and> user_id t = B \<longrightarrow>
     (\<forall>r db'. toggle_task_completion fails T B now db = (Inr r, db') \<longrightarrow>
        r = t\<lparr>completed := \<not> completed t, updated_at := now\<rparr> \<and>
        tasks db' = (tasks db)(T \<mapsto> r) \<and>
        trace db' = [SelectTask T True, Commit, Refresh T])
     \<and> fst (toggle_task_completion no_faults T B now db) =
         Inr (t\<lparr>completed := \<not> completed t, updated_at := now\<rparr>)"
proof (intro impI conjI allI)
  fix r db'
  assume a: "new_session db \<and> tasks db T = Some t \<and> user_id t = B"
    and b: "toggle_task_completion fails T B now db = (Inr r, db')"
  from a have p: "pending db = []" "trace db = []" by (simp_all add: new_session_def)
  from toggle_success [OF b p(1)] a p(2)
  show "r = t\<lparr>completed := \<not> completed t, updated_at := now\<rparr>"
    and "tasks db' = (tasks db)(T \<mapsto> r)"
    and "trace db' = [SelectTask T True, Commit, Refresh T]"
    by auto
next
  assume "new_session db \<and> tasks db T = Some t \<and> user_id t = B"
  then show "fst (toggle_task_completion no_faults T B now db) =
         Inr (t\<lparr>completed := \<not> completed t, updated_at := now\<rparr>)"
    by (simp add: toggle_owned no_faults_def)
qed

text \<open>Witness for C9: alice completes her task.\<close>

theorem C9_witness:
  "new_session example_db \<and> tasks example_db 1 = Some alice_task \<and> user_id alice_task = ''alice''
   \<and> toggle_task_completion no_faults 1 ''alice'' 200 example_db =
       (Inr (alice_task\<lparr>completed := True, updated_at := 200\<rparr>),
        example_db\<lparr>tasks := [1 \<mapsto> alice_task\<lparr>completed := True, updated_at := 200\<rparr>],
                    trace := [SelectTask 1 True, Commit, Refresh 1]\<rparr>)"
proof -
  have h: "new_session example_db \<and> tasks example_db 1 = Some alice_task
           \<and> user_id alice_task = ''alice''"
    by (simp add: new_session_def example_db_def alice_task_def)
  have e: "toggle_task_completion no_faults 1 ''alice'' 200 example_db =
       (Inr (alice_task\<lparr>completed := True, updated_at := 200\<rparr>),
        example_db\<lparr>tasks := [1 \<mapsto> alice_task\<lparr>completed := True, updated_at := 200\<rparr>],
                    trace := [SelectTask 1 True, Commit, Refresh 1]\<rparr>)"
    by (simp add: handler_defs no_faults_def example_db_def alice_task_def Let_def issue_def)
  from C9_toggle_flips_completed [of example_db 1 alice_task "''alice''" no_faults 200] h e
  show ?thesis by simp
qed

section \<open>Blank descriptions in an update\<close>

text \<open>
  Claim C10, as amended. In a successful \<^verbatim>\<open>PUT /tasks/{id}\<close> whose body has a
  description: the empty string is normalised to \<open>None\<close> and leaves the stored description
  unchanged; a non-empty description of whitespace only is normalised to the empty
  string, which is stored, so the description is cleared; any other description is stored
  stripped.
\<close>

theorem C10_empty_description_ignored:
  "new_session db \<and> ub_description body = Some s \<and>
   PUT_task fails T body B now db = (Inr r, db') \<longrightarrow>
     (\<exists>t. tasks db T = Some t \<and> tasks db' T = Some r \<and>
        (s = [] \<longrightarrow> description r = description t) \<and>
        (s \<noteq> [] \<and> list_all is_space s \<longrightarrow> description r = Some []) \<and>
        (\<not> list_all is_space s \<longrightarrow> description r = Some (strip s)))"
proof
  assume a: "new_session db \<and> ub_description body = Some s \<and>
   PUT_task fails T body B now db = (Inr r, db')"
  then have "PUT_task fails T body B now db = (Inr r, db')" "pending db = []"
    by (simp_all add: new_session_def)
  from PUT_success [OF this] a
  show "\<exists>t. tasks db T = Some t \<and> tasks db' T = Some r \<and>
        (s = [] \<longrightarrow> description r = description t) \<and>
        (s \<noteq> [] \<and> list_all is_space s \<longrightarrow> description r = Some []) \<and>
        (\<not> list_all is_space s \<longrightarrow> description r = Some (strip s))"
    by (auto simp: strip_eq_Nil_iff [symmetric])
qed

text \<open>Witness for C10: alice sends the empty string as description.\<close>

theorem C10_witness:
  "new_session example_db \<and> ub_description empty_description_body = Some [] \<and>
   PUT_task no_faults 1 empty_description_body ''alice'' 200 example_db =
     (Inr (alice_task\<lparr>updated_at := 200\<rparr>),
      example_db\<lparr>tasks := [1 \<mapsto> alice_task\<lparr>updated_at := 200\<rparr>],
                  trace := [SelectTask 1 False, Commit, Refresh 1]\<rparr>) \<and>
   tasks example_db 1 = Some alice_task \<and>
   description (alice_task\<lparr>updated_at := 200\<rparr>) = description alice_task"
proof -
  have h: "new_session example_db" "ub_description empty_description_body = Some []"
    "tasks example_db 1 = Some alice_task"
    by (simp_all add: new_session_def example_db_def empty_description_body_def)
  note c = C10_empty_description_ignored [of example_db empty_description_body "[]" no_faults 1
      "''alice''" 200 "alice_task\<lparr>updated_at := 200\<rparr>"
      "example_db\<lparr>tasks := [1 \<mapsto> alice_task\<lparr>updated_at := 200\<rparr>],
                  trace := [SelectTask 1 False, Commit, Refresh 1]\<rparr>"]
  from c h(1,2) PUT_empty_description
  have "\<exists>t. tasks example_db 1 = Some t \<and>
          description (alice_task\<lparr>updated_at := 200\<rparr>) = description t"
    by blast
  with h(3) have "description (alice_task\<lparr>updated_at := 200\<rparr>) = description alice_task"
    by simp
  with h PUT_empty_description show ?thesis by simp
qed

text \<open>
  Counterexample to C10 as stated (a whitespace-only description leaves the stored one
  unchanged): alice sends three spaces, and the description of her task, which was
  \<open>two litres\<close>, is now the empty string.
\<close>

theorem C10_whitespace_clears_description:
  "list_all is_space ''   '' \<and>
   description alice_task = Some ''two litres'' \<and>
   tasks example_db 1 = Some alice_task \<and>
   fst (PUT_task no_faults 1 blank_body ''alice'' 200 example_db) =
     Inr (alice_task\<lparr>description := Some [], updated_at := 200\<rparr>) \<and>
   tasks (snd (PUT_task no_faults 1 blank_body ''alice'' 200 example_db)) 1 =
     Some (alice_task\<lparr>description := Some [], updated_at := 200\<rparr>)"
  by (simp add: PUT_blank) (simp add: is_space_def alice_task_def example_db_def)

end
